theory Spec2Isabelle
  imports Complex_Main
begin

section \<open>The schema\<close>

text \<open>
  The tables of the database design guide, with the columns that the guide's
  TypeScript and SQL functions read or write. A UUID is a natural number, an
  instant (TIMESTAMP WITH TIME ZONE) an integer count of milliseconds, a DECIMAL
  an exact rational (the rounding of DECIMAL(p,s) is not modelled), and a
  GEOGRAPHY point the pair (longitude, latitude), as in POINT(lng lat). A
  nullable column that the code reads is an option.
\<close>

type_synonym uuid = nat
type_synonym timestamptz = int
type_synonym decimal = rat
type_synonym geography = "decimal \<times> decimal"

datatype user_role = Rider | Driver | Admin
datatype verification_status = Pending | Approved | Rejected | Suspended
datatype subscription_status = Active | Expired | Cancelled | Trial
datatype trip_type = Airport | Short_drop | Market | Other

text \<open>The five labels of the enum \<open>trip_status\<close>.\<close>

datatype trip_status =
  Requested | Accepted | Picked_up | Completed | Trip_cancelled

record users_row =
  u_id :: uuid
  u_full_name :: string
  u_role :: user_role

record rider_profiles_row =
  rp_id :: uuid
  rp_user_id :: "uuid option"
  rp_subscription_status :: subscription_status
  rp_subscription_end_date :: "timestamptz option"
  rp_total_trips :: int

record driver_profiles_row =
  dp_id :: uuid
  dp_user_id :: "uuid option"
  dp_verification_status :: verification_status
  dp_subscription_status :: subscription_status
  dp_subscription_end_date :: "timestamptz option"
  dp_is_online :: bool
  dp_is_available :: bool
  dp_current_location :: "geography option"
  dp_location_updated_at :: "timestamptz option"
  dp_total_trips :: int
  dp_rating_average :: decimal

record vehicles_row =
  v_id :: uuid
  v_driver_id :: "uuid option"
  v_make :: string
  v_model :: string
  v_is_primary :: bool

text \<open>The TypeScript type \<open>Location\<close>: the three columns of a pickup or a destination.\<close>

record location =
  lat :: decimal
  lng :: decimal
  address :: string

record trip_requests_row =
  tr_id :: uuid
  tr_rider_id :: "uuid option"
  tr_pickup :: location
  tr_destination :: location
  tr_trip_type :: trip_type
  tr_estimated_distance_km :: decimal
  tr_estimated_fare :: decimal
  tr_status :: trip_status
  tr_expires_at :: "timestamptz option"
  tr_created_at :: timestamptz

record trips_row =
  t_id :: uuid
  t_rider_id :: "uuid option"
  t_driver_id :: "uuid option"
  t_vehicle_id :: "uuid option"
  t_pickup :: location
  t_destination :: location
  t_trip_type :: trip_type
  t_status :: trip_status
  t_estimated_distance_km :: decimal
  t_actual_distance_km :: "decimal option"
  t_estimated_fare :: decimal
  t_actual_fare :: "decimal option"
  t_requested_at :: timestamptz
  t_accepted_at :: "timestamptz option"
  t_picked_up_at :: "timestamptz option"
  t_completed_at :: "timestamptz option"

record location_history_row =
  lh_id :: uuid
  lh_trip_id :: uuid
  lh_driver_id :: uuid
  lh_latitude :: decimal
  lh_longitude :: decimal
  lh_location :: geography
  lh_speed_kmh :: decimal
  lh_recorded_at :: timestamptz

record notifications_row =
  n_id :: uuid
  n_user_id :: "uuid option"
  n_title :: string
  n_body :: string
  n_notification_type :: string
  n_related_entity_type :: string
  n_related_entity_id :: uuid

text \<open>
  The database: each table is the list of its rows, in the order a scan yields
  them. \<open>next_uuid\<close> stands for \<open>uuid_generate_v4()\<close>: the id the next inserted
  row receives.
\<close>

record store =
  users :: "users_row list"
  rider_profiles :: "rider_profiles_row list"
  driver_profiles :: "driver_profiles_row list"
  vehicles :: "vehicles_row list"
  trip_requests :: "trip_requests_row list"
  trips :: "trips_row list"
  location_history :: "location_history_row list"
  notifications :: "notifications_row list"
  next_uuid :: uuid

text \<open>
  The configuration that \<open>system_config\<close> holds: the night window as two times
  of day, and the two fare rates. A time of day (the SQL type TIME) is a count
  of microseconds since midnight.
\<close>

type_synonym time_of_day = nat

record system_config =
  night_mode_start :: time_of_day
  night_mode_end :: time_of_day
  base_fare :: decimal
  per_km_rate :: decimal

definition hhmm :: "nat \<Rightarrow> nat \<Rightarrow> time_of_day" where
  "hhmm h m = (h * 60 + m) * 60000000"

definition midnight_24 :: time_of_day where
  "midnight_24 = hhmm 24 0"

text \<open>The rows that the schema inserts into \<open>system_config\<close>.\<close>

definition default_config :: system_config where
  "default_config =
     \<lparr>night_mode_start = hhmm 18 0, night_mode_end = hhmm 6 0,
      base_fare = 500, per_km_rate = 150\<rparr>"

section \<open>Results of a call\<close>

text \<open>
  What the guide's functions throw: the two errors they raise themselves, the
  TypeError of JavaScript on reading a property of \<open>null\<close>, and the error
  42804 of PL/pgSQL, 'structure of query does not match function result type'.
\<close>

datatype error =
  Request_no_longer_available | Subscription_required | TypeError | Datatype_mismatch

datatype 'a outcome = Returned 'a | Thrown error

text \<open>
  \<open>.single()\<close> of the client: the row when the query yields exactly one, and
  \<open>null\<close> otherwise.
\<close>

fun single :: "'a list \<Rightarrow> 'a option" where
  "single [x] = Some x"
| "single _ = None"

text \<open>A foreign key: a null reference passes, any other must name a row.\<close>

definition references :: "uuid option \<Rightarrow> uuid list \<Rightarrow> bool" where
  "references r ids = (case r of None \<Rightarrow> True | Some i \<Rightarrow> i \<in> set ids)"

section \<open>The helper functions of the schema\<close>

text \<open>
  SQL's three-valued \<open>AND\<close>, with \<open>None\<close> for NULL.
\<close>

fun sql_and :: "bool option \<Rightarrow> bool option \<Rightarrow> bool option" where
  "sql_and (Some False) _ = Some False"
| "sql_and _ (Some False) = Some False"
| "sql_and (Some True) (Some True) = Some True"
| "sql_and _ _ = None"

text \<open>
  \<open>is_subscription_active(p_user_id, p_role)\<close>: \<open>SELECT ... INTO\<close> leaves both
  variables NULL when no profile has the user id, and takes the first row
  otherwise.
\<close>

definition is_subscription_active ::
  "store \<Rightarrow> uuid \<Rightarrow> user_role \<Rightarrow> timestamptz \<Rightarrow> bool option" where
  "is_subscription_active s p_user_id p_role now =
     (case p_role of
        Rider \<Rightarrow>
          (let rows = filter (\<lambda>r. rp_user_id r = Some p_user_id) (rider_profiles s);
               v_status = (case rows of [] \<Rightarrow> None | r # _ \<Rightarrow> Some (rp_subscription_status r));
               v_end_date = (case rows of [] \<Rightarrow> None | r # _ \<Rightarrow> rp_subscription_end_date r)
           in sql_and (map_option (\<lambda>st. st = Active \<or> st = Trial) v_status)
                      (map_option (\<lambda>e. e > now) v_end_date))
      | Driver \<Rightarrow>
          (let rows = filter (\<lambda>r. dp_user_id r = Some p_user_id) (driver_profiles s);
               v_status = (case rows of [] \<Rightarrow> None | r # _ \<Rightarrow> Some (dp_subscription_status r));
               v_end_date = (case rows of [] \<Rightarrow> None | r # _ \<Rightarrow> dp_subscription_end_date r)
           in sql_and (map_option (\<lambda>st. st = Active \<or> st = Trial) v_status)
                      (map_option (\<lambda>e. e > now) v_end_date))
      | Admin \<Rightarrow> Some False)"

text \<open>
  \<open>is_night_mode()\<close>, with the configuration row and \<open>CURRENT_TIME\<close> as
  arguments.
\<close>

definition is_night_mode :: "system_config \<Rightarrow> time_of_day \<Rightarrow> bool" where
  "is_night_mode v_config v_current_time =
     (let v_start_time = night_mode_start v_config;
          v_end_time = night_mode_end v_config
      in if v_start_time > v_end_time
         then v_current_time \<ge> v_start_time \<or> v_current_time < v_end_time
         else v_current_time \<ge> v_start_time \<and> v_current_time < v_end_time)"

text \<open>
  Modelled from the spec: \<open>calculateFare\<close>, which \<open>requestTrip\<close> calls, is not
  defined in the sources. The spec gives the fare as the base fare plus the
  rate per kilometre times the distance, with the configured rates.
\<close>

definition calculateFare :: "system_config \<Rightarrow> decimal \<Rightarrow> decimal" where
  "calculateFare cfg distanceKm = base_fare cfg + per_km_rate cfg * distanceKm"

text \<open>
  Modelled from the spec: the fare calculator's \<open>Estimate\<close> is not in the
  sources either. It pairs the fare with the night flag; the night flag is
  \<open>is_night_mode\<close> of the schema, at the time given.
\<close>

definition Estimate ::
  "system_config \<Rightarrow> decimal \<Rightarrow> trip_type \<Rightarrow> time_of_day \<Rightarrow> decimal \<times> bool" where
  "Estimate cfg distanceKm tripType atTime =
     (calculateFare cfg distanceKm, is_night_mode cfg atTime)"

section \<open>Finding nearby drivers\<close>

text \<open>The row type of the query in \<open>find_nearby_drivers\<close>.\<close>

record nearby_driver =
  nd_driver_id :: uuid
  nd_driver_name :: string
  nd_distance_km :: decimal
  nd_rating :: decimal
  nd_vehicle_info :: "string option"

text \<open>
  The rows of \<open>driver_profiles JOIN users LEFT JOIN vehicles\<close>: a driver with no
  user row gives none, a driver with no primary vehicle gives one row with a
  NULL vehicle, and any other driver one row for each primary vehicle.
\<close>

definition joined_rows ::
  "store \<Rightarrow> (driver_profiles_row \<times> users_row \<times> vehicles_row option) list" where
  "joined_rows s =
     concat (map (\<lambda>dp.
       concat (map (\<lambda>u.
         (let vs = filter (\<lambda>v. v_driver_id v = Some (dp_id dp) \<and> v_is_primary v) (vehicles s)
          in if vs = [] then [(dp, u, None)] else map (\<lambda>v. (dp, u, Some v)) vs))
         (filter (\<lambda>u. Some (u_id u) = dp_user_id dp) (users s))))
       (driver_profiles s))"

text \<open>
  The \<open>WHERE\<close> clause. \<open>ST_Distance\<close> of PostGIS is a parameter: the distance in
  metres between two points. \<open>ST_DWithin\<close> holds when that distance is at most
  the radius; on a NULL location it is NULL, and the row is dropped.
\<close>

definition nearby_where ::
  "(geography \<Rightarrow> geography \<Rightarrow> decimal) \<Rightarrow> decimal \<Rightarrow> decimal \<Rightarrow> decimal \<Rightarrow>
   driver_profiles_row \<Rightarrow> bool" where
  "nearby_where ST_Distance user_latitude user_longitude radius_km dp =
     (dp_is_online dp = True
      \<and> dp_is_available dp = True
      \<and> dp_verification_status dp = Approved
      \<and> (dp_subscription_status dp = Active \<or> dp_subscription_status dp = Trial)
      \<and> (case dp_current_location dp of
           None \<Rightarrow> False
         | Some loc \<Rightarrow> ST_Distance loc (user_longitude, user_latitude) \<le> radius_km * 1000))"

text \<open>
  The \<open>SELECT\<close> list. A row with a NULL location does not pass the \<open>WHERE\<close>
  clause, so its distance is never returned.
\<close>

definition nearby_select ::
  "(geography \<Rightarrow> geography \<Rightarrow> decimal) \<Rightarrow> decimal \<Rightarrow> decimal \<Rightarrow>
   driver_profiles_row \<times> users_row \<times> vehicles_row option \<Rightarrow> nearby_driver" where
  "nearby_select ST_Distance user_latitude user_longitude row =
     (case row of (dp, u, v) \<Rightarrow>
       \<lparr>nd_driver_id = dp_id dp,
        nd_driver_name = u_full_name u,
        nd_distance_km =
          (case dp_current_location dp of
             None \<Rightarrow> 0
           | Some loc \<Rightarrow> ST_Distance loc (user_longitude, user_latitude) / 1000),
        nd_rating = dp_rating_average dp,
        nd_vehicle_info = map_option (\<lambda>v. v_make v @ '' '' @ v_model v) v\<rparr>)"

text \<open>
  The query of \<open>find_nearby_drivers\<close>: the \<open>SELECT\<close> that follows \<open>RETURN QUERY\<close>.
  It orders by \<open>distance_km\<close> alone and SQL fixes no order among rows of equal
  distance; the stable sort keeps them in the order of the scan, which is any
  order the tables may be listed in.
\<close>

definition nearby_query ::
  "(geography \<Rightarrow> geography \<Rightarrow> decimal) \<Rightarrow> store \<Rightarrow> decimal \<Rightarrow> decimal \<Rightarrow> decimal \<Rightarrow>
   nearby_driver list" where
  "nearby_query ST_Distance s user_latitude user_longitude radius_km =
     take 20
       (sort_key nd_distance_km
          (map (nearby_select ST_Distance user_latitude user_longitude)
             (filter (\<lambda>(dp, u, v).
                  nearby_where ST_Distance user_latitude user_longitude radius_km dp)
                (joined_rows s))))"

text \<open>
  The column types that decide whether \<open>RETURN QUERY\<close> hands the rows over.
  \<open>RETURNS TABLE\<close> declares \<open>driver_id UUID, driver_name TEXT, distance_km
  DECIMAL, rating DECIMAL, vehicle_info TEXT\<close>. The select list has \<open>dp.id\<close>, a
  UUID; \<open>u.full_name\<close>, declared VARCHAR(255); \<open>ST_Distance(...) / 1000\<close>, a
  double precision; \<open>dp.rating_average\<close>, a DECIMAL; and the concatenation
  \<open>v.make || ' ' || v.model\<close>, a TEXT.
\<close>

datatype sql_type = Sql_uuid | Sql_text | Sql_varchar | Sql_numeric | Sql_double_precision

definition returns_table :: "sql_type list" where
  "returns_table = [Sql_uuid, Sql_text, Sql_numeric, Sql_numeric, Sql_text]"

definition select_list :: "sql_type list" where
  "select_list = [Sql_uuid, Sql_varchar, Sql_double_precision, Sql_numeric, Sql_text]"

text \<open>
  \<open>find_nearby_drivers(user_latitude, user_longitude, radius_km)\<close>.
  \<open>RETURN QUERY\<close> compares the types of the query's columns with the declared
  ones before it takes a row, converts nothing, and raises when they differ.
\<close>

definition find_nearby_drivers ::
  "(geography \<Rightarrow> geography \<Rightarrow> decimal) \<Rightarrow> store \<Rightarrow> decimal \<Rightarrow> decimal \<Rightarrow> decimal \<Rightarrow>
   nearby_driver list outcome" where
  "find_nearby_drivers ST_Distance s user_latitude user_longitude radius_km =
     (if select_list = returns_table
      then Returned (nearby_query ST_Distance s user_latitude user_longitude radius_km)
      else Thrown Datatype_mismatch)"

text \<open>The rows that a caller receives: none from a call that raised.\<close>

definition returned_rows :: "'a list outcome \<Rightarrow> 'a list" where
  "returned_rows r = (case r of Returned rows \<Rightarrow> rows | Thrown e \<Rightarrow> [])"

section \<open>Requesting a trip\<close>

text \<open>
  \<open>new Date(x)\<close> of JavaScript on a nullable timestamp: \<open>null\<close> gives the
  epoch.
\<close>

definition js_date :: "timestamptz option \<Rightarrow> timestamptz" where
  "js_date x = (case x of None \<Rightarrow> 0 | Some d \<Rightarrow> d)"

text \<open>
  \<open>requestTrip(riderId, pickup, destination)\<close>. \<open>calculateDistance\<close> is not in
  the sources and is a parameter. The clock is read twice: \<open>now_check\<close> in the
  subscription test and \<open>now_insert\<close> when the request is inserted. Reading
  \<open>rider.subscription_status\<close> of a rider that was not found throws.
\<close>

definition requestTrip ::
  "(location \<Rightarrow> location \<Rightarrow> decimal) \<Rightarrow> system_config \<Rightarrow> uuid \<Rightarrow> location \<Rightarrow> location \<Rightarrow>
   timestamptz \<Rightarrow> timestamptz \<Rightarrow> store \<Rightarrow> trip_requests_row outcome \<times> store" where
  "requestTrip calculateDistance cfg riderId pickup destination now_check now_insert s =
     (case single (filter (\<lambda>r. rp_id r = riderId) (rider_profiles s)) of
        None \<Rightarrow> (Thrown TypeError, s)
      | Some rider \<Rightarrow>
          (let isActive = (rp_subscription_status rider = Active
                           \<and> js_date (rp_subscription_end_date rider) > now_check)
           in if \<not> isActive then (Thrown Subscription_required, s)
              else
                (let distance = calculateDistance pickup destination;
                     estimatedFare = calculateFare cfg distance;
                     request =
                       \<lparr>tr_id = next_uuid s,
                        tr_rider_id = Some riderId,
                        tr_pickup = pickup,
                        tr_destination = destination,
                        tr_trip_type = Short_drop,
                        tr_estimated_distance_km = distance,
                        tr_estimated_fare = estimatedFare,
                        tr_status = Requested,
                        tr_expires_at = Some (now_insert + 10 * 60 * 1000),
                        tr_created_at = now_insert\<rparr>
                 in (Returned request,
                     s\<lparr>trip_requests := trip_requests s @ [request],
                       next_uuid := Suc (next_uuid s)\<rparr>))))"


section \<open>Accepting a request\<close>

text \<open>
  \<open>acceptRequest(requestId, driverId, vehicleId)\<close> awaits six statements of the
  client, one after the other. Each statement is one definition; the database
  runs each as one transaction of its own.
\<close>

text \<open>1. Get request: \<open>select('*') eq('id', requestId) eq('status', 'requested') single()\<close>.\<close>

definition accept_select :: "uuid \<Rightarrow> store \<Rightarrow> trip_requests_row option" where
  "accept_select requestId s =
     single (filter (\<lambda>r. tr_id r = requestId \<and> tr_status r = Requested) (trip_requests s))"

text \<open>
  2. Create trip. The insert fails, and yields \<open>null\<close>, when a foreign key of
  the new row names no row of its table.
\<close>

definition accept_insert ::
  "trip_requests_row \<Rightarrow> uuid \<Rightarrow> uuid \<Rightarrow> timestamptz \<Rightarrow> store \<Rightarrow> trips_row option \<times> store" where
  "accept_insert request driverId vehicleId now s =
     (let trip =
        \<lparr>t_id = next_uuid s,
         t_rider_id = tr_rider_id request,
         t_driver_id = Some driverId,
         t_vehicle_id = Some vehicleId,
         t_pickup = tr_pickup request,
         t_destination = tr_destination request,
         t_trip_type = tr_trip_type request,
         t_status = Accepted,
         t_estimated_distance_km = tr_estimated_distance_km request,
         t_actual_distance_km = None,
         t_estimated_fare = tr_estimated_fare request,
         t_actual_fare = None,
         t_requested_at = tr_created_at request,
         t_accepted_at = Some now,
         t_picked_up_at = None,
         t_completed_at = None\<rparr>
      in if references (t_rider_id trip) (map rp_id (rider_profiles s))
            \<and> references (t_driver_id trip) (map dp_id (driver_profiles s))
            \<and> references (t_vehicle_id trip) (map v_id (vehicles s))
         then (Some trip, s\<lparr>trips := trips s @ [trip], next_uuid := Suc (next_uuid s)\<rparr>)
         else (None, s))"

text \<open>3. Delete request: \<open>delete() eq('id', requestId)\<close>.\<close>

definition accept_delete :: "uuid \<Rightarrow> store \<Rightarrow> store" where
  "accept_delete requestId s =
     s\<lparr>trip_requests := filter (\<lambda>r. tr_id r \<noteq> requestId) (trip_requests s)\<rparr>"

text \<open>4. Update driver status: \<open>update({ is_available: false }) eq('id', driverId)\<close>.\<close>

definition accept_update :: "uuid \<Rightarrow> store \<Rightarrow> store" where
  "accept_update driverId s =
     s\<lparr>driver_profiles :=
         map (\<lambda>d. if dp_id d = driverId then d\<lparr>dp_is_available := False\<rparr> else d)
           (driver_profiles s)\<rparr>"

text \<open>5. The rider's profile: \<open>select('user_id') eq('id', request.rider_id) single()\<close>.\<close>

definition accept_rider :: "trip_requests_row \<Rightarrow> store \<Rightarrow> rider_profiles_row option" where
  "accept_rider request s =
     (case tr_rider_id request of
        None \<Rightarrow> None
      | Some rid \<Rightarrow> single (filter (\<lambda>r. rp_id r = rid) (rider_profiles s)))"

text \<open>6. Notify rider: the insert into \<open>notifications\<close>.\<close>

definition accept_notify :: "rider_profiles_row \<Rightarrow> trips_row \<Rightarrow> store \<Rightarrow> store" where
  "accept_notify riderProfile trip s =
     (let n =
        \<lparr>n_id = next_uuid s,
         n_user_id = rp_user_id riderProfile,
         n_title = ''Driver Assigned!'',
         n_body = ''Your driver is on the way'',
         n_notification_type = ''trip_accepted'',
         n_related_entity_type = ''trip'',
         n_related_entity_id = t_id trip\<rparr>
      in if references (n_user_id n) (map u_id (users s))
         then s\<lparr>notifications := notifications s @ [n], next_uuid := Suc (next_uuid s)\<rparr>
         else s)"

text \<open>
  The function, run from its first statement to its return with no other
  statement in between. Building the notification reads \<open>riderProfile.user_id\<close>
  and \<open>trip.id\<close>, and throws when either object is \<open>null\<close>.
\<close>

definition acceptRequest ::
  "uuid \<Rightarrow> uuid \<Rightarrow> uuid \<Rightarrow> timestamptz \<Rightarrow> store \<Rightarrow> trips_row outcome \<times> store" where
  "acceptRequest requestId driverId vehicleId now s =
     (case accept_select requestId s of
        None \<Rightarrow> (Thrown Request_no_longer_available, s)
      | Some request \<Rightarrow>
          (let (trip, s1) = accept_insert request driverId vehicleId now s;
               s2 = accept_delete requestId s1;
               s3 = accept_update driverId s2;
               riderProfile = accept_rider request s3
           in case riderProfile of
                None \<Rightarrow> (Thrown TypeError, s3)
              | Some rp \<Rightarrow>
                  (case trip of
                     None \<Rightarrow> (Thrown TypeError, s3)
                   | Some t \<Rightarrow> (Returned t, accept_notify rp t s3))))"

subsection \<open>Calls that run at the same time\<close>

text \<open>
  A call of \<open>acceptRequest\<close> gives up control at each \<open>await\<close>, so the statements
  of two calls may alternate. A call in progress is the statement it is about
  to run, with the local variables it holds.
\<close>

datatype accept_pc =
    At_select
  | At_insert trip_requests_row
  | At_delete trip_requests_row "trips_row option"
  | At_update trip_requests_row "trips_row option"
  | At_rider trip_requests_row "trips_row option"
  | At_notify "trips_row option" "rider_profiles_row option"
  | Finished "trips_row outcome"

fun accept_step ::
  "uuid \<Rightarrow> uuid \<Rightarrow> uuid \<Rightarrow> timestamptz \<Rightarrow> accept_pc \<Rightarrow> store \<Rightarrow> accept_pc \<times> store" where
  "accept_step requestId driverId vehicleId now At_select s =
     (case accept_select requestId s of
        None \<Rightarrow> (Finished (Thrown Request_no_longer_available), s)
      | Some request \<Rightarrow> (At_insert request, s))"
| "accept_step requestId driverId vehicleId now (At_insert request) s =
     (let (trip, s1) = accept_insert request driverId vehicleId now s
      in (At_delete request trip, s1))"
| "accept_step requestId driverId vehicleId now (At_delete request trip) s =
     (At_update request trip, accept_delete requestId s)"
| "accept_step requestId driverId vehicleId now (At_update request trip) s =
     (At_rider request trip, accept_update driverId s)"
| "accept_step requestId driverId vehicleId now (At_rider request trip) s =
     (At_notify trip (accept_rider request s), s)"
| "accept_step requestId driverId vehicleId now (At_notify trip riderProfile) s =
     (case riderProfile of
        None \<Rightarrow> (Finished (Thrown TypeError), s)
      | Some rp \<Rightarrow>
          (case trip of
             None \<Rightarrow> (Finished (Thrown TypeError), s)
           | Some t \<Rightarrow> (Finished (Returned t), accept_notify rp t s)))"
| "accept_step requestId driverId vehicleId now (Finished r) s = (Finished r, s)"

record accept_call =
  ac_requestId :: uuid
  ac_driverId :: uuid
  ac_vehicleId :: uuid
  ac_now :: timestamptz
  ac_pc :: accept_pc

text \<open>
  A schedule names, statement by statement, the call that runs next. A number
  that names no call is skipped.
\<close>

fun interleave :: "nat list \<Rightarrow> accept_call list \<Rightarrow> store \<Rightarrow> accept_call list \<times> store" where
  "interleave [] calls s = (calls, s)"
| "interleave (i # schedule) calls s =
     (if i < length calls
      then (let c = calls ! i;
                (pc', s') =
                  accept_step (ac_requestId c) (ac_driverId c) (ac_vehicleId c) (ac_now c)
                    (ac_pc c) s
            in interleave schedule (calls[i := c\<lparr>ac_pc := pc'\<rparr>]) s')
      else interleave schedule calls s)"

definition new_call :: "uuid \<Rightarrow> uuid \<Rightarrow> uuid \<Rightarrow> timestamptz \<Rightarrow> accept_call" where
  "new_call requestId driverId vehicleId now =
     \<lparr>ac_requestId = requestId, ac_driverId = driverId, ac_vehicleId = vehicleId,
      ac_now = now, ac_pc = At_select\<rparr>"

section \<open>The life of a trip\<close>

text \<open>\<open>startTrip(tripId)\<close>: one update, keyed on the id.\<close>

definition startTrip :: "uuid \<Rightarrow> timestamptz \<Rightarrow> store \<Rightarrow> store" where
  "startTrip tripId now s =
     s\<lparr>trips :=
         map (\<lambda>t. if t_id t = tripId
                  then t\<lparr>t_status := Picked_up, t_picked_up_at := Some now\<rparr>
                  else t)
           (trips s)\<rparr>"

text \<open>
  Modelled from the spec: \<open>increment_rider_trips\<close> and \<open>increment_driver_trips\<close>,
  which \<open>completeTrip\<close> calls, are not defined in the sources. The spec has them
  update the trip count of the rider and of the driver.
\<close>

definition increment_rider_trips :: "uuid option \<Rightarrow> store \<Rightarrow> store" where
  "increment_rider_trips p_rider_id s =
     s\<lparr>rider_profiles :=
         map (\<lambda>r. if Some (rp_id r) = p_rider_id
                  then r\<lparr>rp_total_trips := rp_total_trips r + 1\<rparr>
                  else r)
           (rider_profiles s)\<rparr>"

definition increment_driver_trips :: "uuid option \<Rightarrow> store \<Rightarrow> store" where
  "increment_driver_trips p_driver_id s =
     s\<lparr>driver_profiles :=
         map (\<lambda>d. if Some (dp_id d) = p_driver_id
                  then d\<lparr>dp_total_trips := dp_total_trips d + 1\<rparr>
                  else d)
           (driver_profiles s)\<rparr>"

text \<open>
  \<open>completeTrip(tripId, actualDistance, actualFare)\<close>: the update of the trip,
  keyed on the id, returns the updated row through \<open>single()\<close>; reading
  \<open>trip.rider_id\<close> throws when there is none. The last statement sets the
  trip's driver available.
\<close>

definition completeTrip ::
  "uuid \<Rightarrow> decimal \<Rightarrow> decimal \<Rightarrow> timestamptz \<Rightarrow> store \<Rightarrow> unit outcome \<times> store" where
  "completeTrip tripId actualDistance actualFare now s =
     (let s1 = s\<lparr>trips :=
                  map (\<lambda>t. if t_id t = tripId
                           then t\<lparr>t_status := Completed,
                                  t_completed_at := Some now,
                                  t_actual_distance_km := Some actualDistance,
                                  t_actual_fare := Some actualFare\<rparr>
                           else t)
                    (trips s)\<rparr>
      in case single (filter (\<lambda>t. t_id t = tripId) (trips s1)) of
           None \<Rightarrow> (Thrown TypeError, s1)
         | Some trip \<Rightarrow>
             (let s2 = increment_rider_trips (t_rider_id trip) s1;
                  s3 = increment_driver_trips (t_driver_id trip) s2;
                  s4 = s3\<lparr>driver_profiles :=
                           map (\<lambda>d. if Some (dp_id d) = t_driver_id trip
                                    then d\<lparr>dp_is_available := True\<rparr>
                                    else d)
                             (driver_profiles s3)\<rparr>
              in (Returned (), s4)))"

section \<open>Recording a driver's location\<close>

text \<open>
  \<open>recordDriverLocation(tripId, driverId, latitude, longitude, speed)\<close>: the
  insert into \<open>location_history\<close>, which fails when the trip or the driver does
  not exist, and then the update of the driver's current location. The
  function takes no timestamp: each statement reads the clock, \<open>now_insert\<close>
  and \<open>now_update\<close>.
\<close>

definition recordDriverLocation ::
  "uuid \<Rightarrow> uuid \<Rightarrow> decimal \<Rightarrow> decimal \<Rightarrow> decimal \<Rightarrow> timestamptz \<Rightarrow> timestamptz \<Rightarrow>
   store \<Rightarrow> store" where
  "recordDriverLocation tripId driverId latitude longitude speed now_insert now_update s =
     (let row =
        \<lparr>lh_id = next_uuid s,
         lh_trip_id = tripId,
         lh_driver_id = driverId,
         lh_latitude = latitude,
         lh_longitude = longitude,
         lh_location = (longitude, latitude),
         lh_speed_kmh = speed,
         lh_recorded_at = now_insert\<rparr>;
          s1 = (if tripId \<in> set (map t_id (trips s))
                   \<and> driverId \<in> set (map dp_id (driver_profiles s))
                then s\<lparr>location_history := location_history s @ [row],
                       next_uuid := Suc (next_uuid s)\<rparr>
                else s)
      in s1\<lparr>driver_profiles :=
             map (\<lambda>d. if dp_id d = driverId
                      then d\<lparr>dp_current_location := Some (longitude, latitude),
                             dp_location_updated_at := Some now_update\<rparr>
                      else d)
               (driver_profiles s1)\<rparr>)"

section \<open>Test data\<close>

text \<open>
  The rows of the setup guide's test data (John Rider, Mike Driver and his
  Toyota Premio, the trip from Georgetown City Mall to Sheriff Street), with
  ids written out, two more drivers, and a request of the design guide's
  example. The drivers stand 1.2 km, 0.5 km and 3 km east of the mall. The
  theorems on concrete inputs run on these rows.
\<close>

definition john_user :: users_row where
  "john_user = \<lparr>u_id = 1, u_full_name = ''John Rider'', u_role = Rider\<rparr>"

definition mike_user :: users_row where
  "mike_user = \<lparr>u_id = 2, u_full_name = ''Mike Driver'', u_role = Driver\<rparr>"

definition dave_user :: users_row where
  "dave_user = \<lparr>u_id = 3, u_full_name = ''Dave Driver'', u_role = Driver\<rparr>"

definition sam_user :: users_row where
  "sam_user = \<lparr>u_id = 4, u_full_name = ''Sam Driver'', u_role = Driver\<rparr>"

definition john :: rider_profiles_row where
  "john = \<lparr>rp_id = 11, rp_user_id = Some 1, rp_subscription_status = Active,
            rp_subscription_end_date = Some 9000000, rp_total_trips = 0\<rparr>"

definition mike :: driver_profiles_row where
  "mike = \<lparr>dp_id = 21, dp_user_id = Some 2, dp_verification_status = Approved,
            dp_subscription_status = Active, dp_subscription_end_date = Some 9000000,
            dp_is_online = True, dp_is_available = True,
            dp_current_location = Some (- 581431 / 10000, 68013 / 10000),
            dp_location_updated_at = None, dp_total_trips = 0, dp_rating_average = 5\<rparr>"

definition dave :: driver_profiles_row where
  "dave = \<lparr>dp_id = 22, dp_user_id = Some 3, dp_verification_status = Approved,
            dp_subscription_status = Active, dp_subscription_end_date = Some 9000000,
            dp_is_online = True, dp_is_available = True,
            dp_current_location = Some (- 581501 / 10000, 68013 / 10000),
            dp_location_updated_at = None, dp_total_trips = 0, dp_rating_average = 4\<rparr>"

definition sam :: driver_profiles_row where
  "sam = \<lparr>dp_id = 23, dp_user_id = Some 4, dp_verification_status = Approved,
           dp_subscription_status = Trial, dp_subscription_end_date = Some 9000000,
           dp_is_online = True, dp_is_available = True,
           dp_current_location = Some (- 581251 / 10000, 68013 / 10000),
           dp_location_updated_at = None, dp_total_trips = 0, dp_rating_average = 5\<rparr>"

definition premio :: vehicles_row where
  "premio = \<lparr>v_id = 31, v_driver_id = Some 21, v_make = ''Toyota'', v_model = ''Premio'',
              v_is_primary = True\<rparr>"

definition axio :: vehicles_row where
  "axio = \<lparr>v_id = 32, v_driver_id = Some 22, v_make = ''Toyota'', v_model = ''Axio'',
            v_is_primary = True\<rparr>"

definition city_mall :: location where
  "city_mall = \<lparr>lat = 68013 / 10000, lng = - 581551 / 10000,
                 address = ''Georgetown City Mall''\<rparr>"

definition sheriff_street :: location where
  "sheriff_street = \<lparr>lat = 68100 / 10000, lng = - 581600 / 10000,
                      address = ''Sheriff Street, Georgetown''\<rparr>"

text \<open>A request created at instant 0, which expires ten minutes later.\<close>

definition mall_request :: trip_requests_row where
  "mall_request =
     \<lparr>tr_id = 41, tr_rider_id = Some 11, tr_pickup = city_mall,
      tr_destination = sheriff_street, tr_trip_type = Short_drop,
      tr_estimated_distance_km = 5 / 2, tr_estimated_fare = 800,
      tr_status = Requested, tr_expires_at = Some 600000, tr_created_at = 0\<rparr>"

definition second_request :: trip_requests_row where
  "second_request = mall_request\<lparr>tr_id := 42\<rparr>"

definition test_store :: store where
  "test_store =
     \<lparr>users = [john_user, mike_user, dave_user, sam_user],
      rider_profiles = [john],
      driver_profiles = [mike, dave, sam],
      vehicles = [premio, axio],
      trip_requests = [mall_request, second_request],
      trips = [],
      location_history = [],
      notifications = [],
      next_uuid = 100\<rparr>"

text \<open>The completed trip of the setup guide.\<close>

definition mall_trip :: trips_row where
  "mall_trip =
     \<lparr>t_id = 51, t_rider_id = Some 11, t_driver_id = Some 21, t_vehicle_id = None,
      t_pickup = city_mall, t_destination = sheriff_street, t_trip_type = Short_drop,
      t_status = Completed, t_estimated_distance_km = 5 / 2,
      t_actual_distance_km = None, t_estimated_fare = 800, t_actual_fare = Some 800,
      t_requested_at = 0, t_accepted_at = Some 300000, t_picked_up_at = None,
      t_completed_at = Some 1800000\<rparr>"

text \<open>
  A distance to run the queries with, in the place of \<open>ST_Distance\<close>: 100 km
  for each degree of longitude and of latitude between the two points.
\<close>

definition grid_distance :: "geography \<Rightarrow> geography \<Rightarrow> decimal" where
  "grid_distance p q = 100000 * (\<bar>fst p - fst q\<bar> + \<bar>snd p - snd q\<bar>)"

lemmas test_data =
  john_user_def mike_user_def dave_user_def sam_user_def john_def mike_def dave_def
  sam_def premio_def
  axio_def city_mall_def sheriff_street_def mall_request_def second_request_def
  test_store_def mall_trip_def grid_distance_def

section \<open>Lists of rows\<close>

text \<open>
  An \<open>update ... eq(...)\<close> rewrites the rows that match and leaves the others: a
  row of the table afterwards is a rewritten match or an untouched row, and a
  column that the rewrite does not set is the same in every row.
\<close>

lemma in_set_map_if:
  assumes "y \<in> set (map (\<lambda>x. if P x then f x else x) xs)"
  obtains x where "x \<in> set xs" and "P x" and "y = f x"
        | "y \<in> set xs" and "\<not> P y"
proof -
  from assms obtain x where x: "x \<in> set xs" and y: "y = (if P x then f x else x)"
    by (auto simp: image_iff)
  show thesis
  proof (cases "P x")
    case True
    with x y that(1) show thesis by simp
  next
    case False
    with x y that(2) show thesis by simp
  qed
qed

lemma map_key_map_if:
  assumes "\<And>x. key (f x) = key x"
  shows "map key (map (\<lambda>x. if P x then f x else x) xs) = map key xs"
  using assms by (induction xs) simp_all


lemma single_Some_filter:
  "single (filter P xs) = Some x \<Longrightarrow> filter P xs = [x]"
  by (cases "filter P xs" rule: single.cases) simp_all


lemmas accept_defs =
  acceptRequest_def accept_select_def accept_insert_def accept_delete_def accept_update_def
  accept_rider_def accept_notify_def references_def Let_def

section \<open>The fare and the night window\<close>

text \<open>
  C6: for every configuration, distance, trip type and time of day before
  24:00, \<open>Estimate\<close> gives the fare \<open>baseFare + perKmRate * distanceKm\<close>, and the
  night flag holds exactly when the time lies in the window from start to end,
  end excluded, where a start after the end makes the window wrap midnight:
  from start to 24:00 and from 0:00 to end. With the schema's configuration
  (500, 150, 18:00 to 06:00), 10 km at 02:00 give the fare 2000 and a night
  trip, and the same at 12:00 no night trip.
\<close>

theorem Estimate_fare_and_night:
  "atTime < midnight_24 \<Longrightarrow>
   fst (Estimate cfg distanceKm tripType atTime)
     = base_fare cfg + per_km_rate cfg * distanceKm
   \<and> snd (Estimate cfg distanceKm tripType atTime)
     = (if night_mode_start cfg > night_mode_end cfg
        then atTime \<in> {night_mode_start cfg ..< midnight_24} \<union> {0 ..< night_mode_end cfg}
        else atTime \<in> {night_mode_start cfg ..< night_mode_end cfg})
   \<and> Estimate default_config 10 Short_drop (hhmm 2 0) = (2000, True)
   \<and> Estimate default_config 10 Short_drop (hhmm 12 0) = (2000, False)"
proof (intro conjI)
  assume day: "atTime < midnight_24"
  show "fst (Estimate cfg distanceKm tripType atTime)
     = base_fare cfg + per_km_rate cfg * distanceKm"
    by (simp add: Estimate_def calculateFare_def)
  show "snd (Estimate cfg distanceKm tripType atTime)
     = (if night_mode_start cfg > night_mode_end cfg
        then atTime \<in> {night_mode_start cfg ..< midnight_24} \<union> {0 ..< night_mode_end cfg}
        else atTime \<in> {night_mode_start cfg ..< night_mode_end cfg})"
    using day by (auto simp: Estimate_def is_night_mode_def Let_def)
next
  show "Estimate default_config 10 Short_drop (hhmm 2 0) = (2000, True)"
    by (simp add: Estimate_def calculateFare_def is_night_mode_def default_config_def hhmm_def)
  show "Estimate default_config 10 Short_drop (hhmm 12 0) = (2000, False)"
    by (simp add: Estimate_def calculateFare_def is_night_mode_def default_config_def hhmm_def)
qed

theorem Estimate_fare_and_night_witness:
  "hhmm 2 0 < midnight_24
   \<and> night_mode_start default_config > night_mode_end default_config
   \<and> fst (Estimate default_config 10 Short_drop (hhmm 2 0)) = 2000
   \<and> snd (Estimate default_config 10 Short_drop (hhmm 2 0))
   \<and> hhmm 2 0 \<in> {0 ..< night_mode_end default_config}"
proof -
  have day: "hhmm 2 0 < midnight_24"
    by (simp add: hhmm_def midnight_24_def)
  from Estimate_fare_and_night [OF day, of default_config 10 Short_drop] day
  show ?thesis
    by (simp add: default_config_def hhmm_def)
qed

section \<open>Who may request a trip\<close>

text \<open>
  C4: a rider is eligible when the subscription status is trial or active and
  the end date is after now, and \<open>requestTrip\<close> is to fail exactly when the
  rider is not. \<open>is_subscription_active\<close> of the schema is that test. On John
  Rider in his trial, with the end date ahead, it answers true, and
  \<open>requestTrip\<close>, which compares the status with 'active' alone, throws
  'Subscription required to request trips'.
\<close>

theorem requestTrip_rejects_trial_rider:
  "fst (requestTrip (\<lambda>pickup destination. 5 / 2) default_config 11 city_mall sheriff_street
          5000 5000
          (test_store\<lparr>rider_profiles := [john\<lparr>rp_subscription_status := Trial\<rparr>]\<rparr>))
     = Thrown Subscription_required
   \<and> is_subscription_active
        (test_store\<lparr>rider_profiles := [john\<lparr>rp_subscription_status := Trial\<rparr>]\<rparr>)
        1 Rider 5000
     = Some True"
  by (simp add: requestTrip_def is_subscription_active_def js_date_def test_data)

text \<open>With the status 'active' the same call creates the request.\<close>

lemma requestTrip_accepts_active_rider:
  "fst (requestTrip (\<lambda>pickup destination. 5 / 2) default_config 11 city_mall sheriff_street
          5000 5000 test_store)
     = Returned (mall_request\<lparr>tr_id := 100, tr_estimated_fare := 875,
                              tr_expires_at := Some 605000, tr_created_at := 5000\<rparr>)"
  by (simp add: requestTrip_def calculateFare_def default_config_def js_date_def Let_def
      test_data)

section \<open>The drivers that the query selects\<close>

text \<open>
  As the function is written, the declared types and the types of the select
  list differ in the name and in the distance, and every call raises.
\<close>

lemma find_nearby_drivers_raises:
  "find_nearby_drivers ST_Distance s user_latitude user_longitude radius_km
     = Thrown Datatype_mismatch"
  by (simp add: find_nearby_drivers_def select_list_def returns_table_def)

lemma joined_rows_driver:
  "(dp, u, v) \<in> set (joined_rows s) \<Longrightarrow> dp \<in> set (driver_profiles s)"
  by (auto simp: joined_rows_def Let_def split: if_splits)

lemma nearby_query_row:
  assumes "r \<in> set (nearby_query D s la lo rad)"
  obtains dp u v where "(dp, u, v) \<in> set (joined_rows s)"
    and "nearby_where D la lo rad dp" and "r = nearby_select D la lo (dp, u, v)"
proof -
  from assms have "r \<in> set (sort_key nd_distance_km
          (map (nearby_select D la lo)
             (filter (\<lambda>(dp, u, v). nearby_where D la lo rad dp) (joined_rows s))))"
    unfolding nearby_query_def by (rule in_set_takeD)
  then show thesis using that by auto
qed

lemma joined_rows_end_date:
  "joined_rows (s\<lparr>driver_profiles :=
                   map (dp_subscription_end_date_update f) (driver_profiles s)\<rparr>)
   = map (\<lambda>(dp, u, v). (dp_subscription_end_date_update f dp, u, v)) (joined_rows s)"
  by (simp add: joined_rows_def map_concat comp_def Let_def if_distrib cong: if_cong)

text \<open>
  What the \<open>WHERE\<close> clause tests: every row of the query is the row of a driver
  who is online, available and approved, whose subscription status is active
  or trial, and who stands within the radius. The query does not read
  \<open>subscription_end_date\<close>: whatever is written into that column, it selects
  the same rows.
\<close>

lemma nearby_query_filter:
  "(\<forall>r \<in> set (nearby_query ST_Distance s user_latitude user_longitude radius_km).
      \<exists>dp \<in> set (driver_profiles s).
        dp_id dp = nd_driver_id r \<and> dp_is_online dp \<and> dp_is_available dp
        \<and> dp_verification_status dp = Approved
        \<and> (dp_subscription_status dp = Active \<or> dp_subscription_status dp = Trial)
        \<and> (\<exists>loc. dp_current_location dp = Some loc
                 \<and> ST_Distance loc (user_longitude, user_latitude) \<le> radius_km * 1000))
   \<and> nearby_query ST_Distance
        (s\<lparr>driver_profiles :=
             map (dp_subscription_end_date_update f) (driver_profiles s)\<rparr>)
        user_latitude user_longitude radius_km
      = nearby_query ST_Distance s user_latitude user_longitude radius_km"
proof (intro conjI ballI)
  fix r
  assume "r \<in> set (nearby_query ST_Distance s user_latitude user_longitude radius_km)"
  then obtain dp u v where j: "(dp, u, v) \<in> set (joined_rows s)"
    and w: "nearby_where ST_Distance user_latitude user_longitude radius_km dp"
    and r: "r = nearby_select ST_Distance user_latitude user_longitude (dp, u, v)"
    by (rule nearby_query_row)
  from j have "dp \<in> set (driver_profiles s)"
    by (rule joined_rows_driver)
  moreover from w r have "dp_id dp = nd_driver_id r \<and> dp_is_online dp \<and> dp_is_available dp
        \<and> dp_verification_status dp = Approved
        \<and> (dp_subscription_status dp = Active \<or> dp_subscription_status dp = Trial)
        \<and> (\<exists>loc. dp_current_location dp = Some loc
                 \<and> ST_Distance loc (user_longitude, user_latitude) \<le> radius_km * 1000)"
    by (auto simp: nearby_where_def nearby_select_def split: option.splits)
  ultimately show "\<exists>dp \<in> set (driver_profiles s).
        dp_id dp = nd_driver_id r \<and> dp_is_online dp \<and> dp_is_available dp
        \<and> dp_verification_status dp = Approved
        \<and> (dp_subscription_status dp = Active \<or> dp_subscription_status dp = Trial)
        \<and> (\<exists>loc. dp_current_location dp = Some loc
                 \<and> ST_Distance loc (user_longitude, user_latitude) \<le> radius_km * 1000)"
    by blast
next
  have same: "map (nearby_select ST_Distance user_latitude user_longitude)
          (filter (\<lambda>(dp, u, v).
               nearby_where ST_Distance user_latitude user_longitude radius_km dp)
             (map (\<lambda>(dp, u, v). (dp_subscription_end_date_update f dp, u, v)) xs))
        = map (nearby_select ST_Distance user_latitude user_longitude)
          (filter (\<lambda>(dp, u, v).
               nearby_where ST_Distance user_latitude user_longitude radius_km dp)
             xs)" for xs
    by (induction xs) (auto simp: nearby_where_def nearby_select_def)
  show "nearby_query ST_Distance
        (s\<lparr>driver_profiles :=
             map (dp_subscription_end_date_update f) (driver_profiles s)\<rparr>)
        user_latitude user_longitude radius_km
      = nearby_query ST_Distance s user_latitude user_longitude radius_km"
    unfolding nearby_query_def joined_rows_end_date same ..
qed


section \<open>The order of the drivers selected\<close>




section \<open>The number of drivers returned\<close>

text \<open>
  C10: for every query point and every radius, the caller of
  \<open>find_nearby_drivers\<close> receives at most 20 rows. The cap is the constant of the
  query's \<open>LIMIT\<close>, and the function has no limit argument: the query yields
  the first 20 of the matching rows, or all of them when they are fewer, so
  never more than 20 also when more than 20 drivers match.
\<close>

theorem find_nearby_drivers_at_most_20:
  "length (returned_rows
     (find_nearby_drivers ST_Distance s user_latitude user_longitude radius_km)) \<le> 20
   \<and> length (nearby_query ST_Distance s user_latitude user_longitude radius_km) \<le> 20
   \<and> length (nearby_query ST_Distance s user_latitude user_longitude radius_km)
     = min 20 (length (filter (\<lambda>(dp, u, v).
                  nearby_where ST_Distance user_latitude user_longitude radius_km dp)
                (joined_rows s)))"
proof (intro conjI)
  show "length (nearby_query ST_Distance s user_latitude user_longitude radius_km) \<le> 20"
    by (simp add: nearby_query_def)
  then show "length (returned_rows
     (find_nearby_drivers ST_Distance s user_latitude user_longitude radius_km)) \<le> 20"
    by (simp add: find_nearby_drivers_def returned_rows_def)
  show "length (nearby_query ST_Distance s user_latitude user_longitude radius_km)
     = min 20 (length (filter (\<lambda>(dp, u, v).
                  nearby_where ST_Distance user_latitude user_longitude radius_km dp)
                (joined_rows s)))"
    by (simp add: nearby_query_def min.commute)
qed

section \<open>The driver's current location\<close>

lemma recordDriverLocation_drivers:
  "driver_profiles (recordDriverLocation tripId driverId latitude longitude speed n1 n2 s) =
     map (\<lambda>d. if dp_id d = driverId
              then d\<lparr>dp_current_location := Some (longitude, latitude),
                     dp_location_updated_at := Some n2\<rparr>
              else d)
       (driver_profiles s)"
  by (simp add: recordDriverLocation_def Let_def)

text \<open>
  C8, as the code has it: \<open>recordDriverLocation\<close> takes no timestamp and compares
  none. After a call, every row of the driver holds the point of that call and
  the instant at which the call ran, whatever the row held before; no driver
  row is added or removed. The last call to arrive wins.
\<close>

theorem recordDriverLocation_overwrites:
  "(\<forall>d \<in> set (driver_profiles
               (recordDriverLocation tripId driverId latitude longitude speed n1 n2 s)).
      dp_id d = driverId \<longrightarrow>
        dp_current_location d = Some (longitude, latitude)
        \<and> dp_location_updated_at d = Some n2)
   \<and> map dp_id (driver_profiles
                  (recordDriverLocation tripId driverId latitude longitude speed n1 n2 s))
     = map dp_id (driver_profiles s)"
proof (intro conjI ballI impI)
  fix d
  assume "d \<in> set (driver_profiles
                     (recordDriverLocation tripId driverId latitude longitude speed n1 n2 s))"
    and d: "dp_id d = driverId"
  then have "d \<in> set (map (\<lambda>d. if dp_id d = driverId
              then d\<lparr>dp_current_location := Some (longitude, latitude),
                     dp_location_updated_at := Some n2\<rparr>
              else d) (driver_profiles s))"
    by (simp only: recordDriverLocation_drivers)
  then show "dp_current_location d = Some (longitude, latitude)"
    and "dp_location_updated_at d = Some n2"
    using d by (elim in_set_map_if; simp)+
next
  show "map dp_id (driver_profiles
                  (recordDriverLocation tripId driverId latitude longitude speed n1 n2 s))
     = map dp_id (driver_profiles s)"
    unfolding recordDriverLocation_drivers by (rule map_key_map_if) simp
qed

theorem recordDriverLocation_overwrites_witness:
  "map (\<lambda>d. (dp_id d, dp_current_location d, dp_location_updated_at d))
     (driver_profiles
        (recordDriverLocation 51 21 (68100 / 10000) (- 581600 / 10000) 30 2000 2000
           (test_store\<lparr>driver_profiles := [mike], trips := [mall_trip]\<rparr>)))
   = [(21, Some (- 581600 / 10000, 68100 / 10000), Some 2000)]"
  using recordDriverLocation_overwrites
          [of 51 21 "68100 / 10000" "- 581600 / 10000" 30 2000 2000
              "test_store\<lparr>driver_profiles := [mike], trips := [mall_trip]\<rparr>"]
  by (simp add: recordDriverLocation_def test_data)

text \<open>
  The counterexample to C8 as the spec states it: a sample of Sheriff Street
  is recorded at instant 2000, and then a sample of the mall at the older
  instant 1000. The driver's position is the mall, with the older instant.
\<close>

theorem recordDriverLocation_older_sample_wins:
  "map (\<lambda>d. (dp_current_location d, dp_location_updated_at d))
     (driver_profiles
        (recordDriverLocation 51 21 (68013 / 10000) (- 581551 / 10000) 30 1000 1000
           (recordDriverLocation 51 21 (68100 / 10000) (- 581600 / 10000) 30 2000 2000
              (test_store\<lparr>driver_profiles := [mike], trips := [mall_trip]\<rparr>))))
   = [(Some (- 581551 / 10000, 68013 / 10000), Some 1000)]"
  by (simp add: recordDriverLocation_def test_data)

section \<open>The status of a trip\<close>

lemma startTrip_trips:
  "trips (startTrip tripId now s) =
     map (\<lambda>t. if t_id t = tripId
              then t\<lparr>t_status := Picked_up, t_picked_up_at := Some now\<rparr>
              else t)
       (trips s)"
  by (simp add: startTrip_def)

lemma completeTrip_trips:
  "trips (snd (completeTrip tripId ad af now s)) =
     map (\<lambda>t. if t_id t = tripId
              then t\<lparr>t_status := Completed, t_completed_at := Some now,
                     t_actual_distance_km := Some ad, t_actual_fare := Some af\<rparr>
              else t) (trips s)"
  by (simp add: completeTrip_def increment_rider_trips_def increment_driver_trips_def Let_def
      split: option.split)

text \<open>
  C2, as the code has it: neither \<open>startTrip\<close> nor \<open>completeTrip\<close> reads the
  status the trip is in. \<open>startTrip\<close> writes 'picked_up' and \<open>completeTrip\<close>
  writes 'completed' to every row with the id, whatever its status was, and
  the rows of the table keep their ids. Applied in this order to an accepted
  trip they give accepted, picked_up, completed; neither has a path that
  rejects a transition.
\<close>

theorem transitions_are_unguarded:
  "(\<forall>t \<in> set (trips (startTrip tripId now s)). t_id t = tripId \<longrightarrow> t_status t = Picked_up)
   \<and> map t_id (trips (startTrip tripId now s)) = map t_id (trips s)
   \<and> (\<forall>t \<in> set (trips (snd (completeTrip tripId actualDistance actualFare now s))).
        t_id t = tripId \<longrightarrow> t_status t = Completed)
   \<and> map t_id (trips (snd (completeTrip tripId actualDistance actualFare now s)))
     = map t_id (trips s)"
proof (intro conjI ballI impI)
  fix t assume "t \<in> set (trips (startTrip tripId now s))" and "t_id t = tripId"
  then show "t_status t = Picked_up"
    unfolding startTrip_trips by (elim in_set_map_if) simp_all
next
  fix t assume "t \<in> set (trips (snd (completeTrip tripId actualDistance actualFare now s)))"
    and "t_id t = tripId"
  then show "t_status t = Completed"
    unfolding completeTrip_trips by (elim in_set_map_if) simp_all
next
  show "map t_id (trips (startTrip tripId now s)) = map t_id (trips s)"
    unfolding startTrip_trips by (rule map_key_map_if) simp
  show "map t_id (trips (snd (completeTrip tripId actualDistance actualFare now s)))
     = map t_id (trips s)"
    unfolding completeTrip_trips by (rule map_key_map_if) simp
qed

text \<open>
  The trip of the test data, taken back to the state accepted, is started and
  then completed.
\<close>

theorem transitions_are_unguarded_witness:
  "map (\<lambda>t. (t_id t, t_status t))
     (trips (test_store\<lparr>trips := [mall_trip\<lparr>t_status := Accepted\<rparr>]\<rparr>))
     = [(51, Accepted)]
   \<and> map (\<lambda>t. (t_id t, t_status t))
     (trips (startTrip 51 900000
        (test_store\<lparr>trips := [mall_trip\<lparr>t_status := Accepted\<rparr>]\<rparr>)))
     = [(51, Picked_up)]
   \<and> map (\<lambda>t. (t_id t, t_status t))
     (trips (snd (completeTrip 51 (5 / 2) 800 1800000
        (startTrip 51 900000
           (test_store\<lparr>trips := [mall_trip\<lparr>t_status := Accepted\<rparr>]\<rparr>)))))
     = [(51, Completed)]"
  using transitions_are_unguarded
          [of 51 900000 "test_store\<lparr>trips := [mall_trip\<lparr>t_status := Accepted\<rparr>]\<rparr>"
              "5 / 2" 800]
  by (simp add: startTrip_def completeTrip_def increment_rider_trips_def
      increment_driver_trips_def test_data)

text \<open>
  The counterexample to C2 as the spec states it: the trip of the test data is
  completed, and \<open>startTrip\<close> on it succeeds and leaves it picked up.
\<close>

theorem startTrip_from_completed:
  "t_status mall_trip = Completed
   \<and> map (\<lambda>t. (t_id t, t_status t))
       (trips (startTrip 51 2000000 (test_store\<lparr>trips := [mall_trip]\<rparr>)))
     = [(51, Picked_up)]"
  by (simp add: startTrip_def test_data)

section \<open>Expired requests\<close>






section \<open>The driver's availability\<close>

lemma accept_insert_drivers:
  "driver_profiles (snd (accept_insert request driverId vehicleId now s)) = driver_profiles s"
  by (simp add: accept_insert_def Let_def)

lemma accept_insert_trip:
  "fst (accept_insert request driverId vehicleId now s) = Some t \<Longrightarrow>
     t_driver_id t = Some driverId \<and> t_status t = Accepted"
  by (auto simp: accept_insert_def Let_def split: if_splits)

lemma accept_notify_drivers:
  "driver_profiles (accept_notify rp t s) = driver_profiles s"
  by (simp add: accept_notify_def Let_def)

lemma acceptRequest_Returned:
  assumes "fst (acceptRequest requestId driverId vehicleId now s) = Returned t"
  shows "driver_profiles (snd (acceptRequest requestId driverId vehicleId now s))
           = map (\<lambda>d. if dp_id d = driverId then d\<lparr>dp_is_available := False\<rparr> else d)
               (driver_profiles s)"
    and "t_driver_id t = Some driverId" and "t_status t = Accepted"
proof -
  from assms obtain request where sel: "accept_select requestId s = Some request"
    by (cases "accept_select requestId s") (simp_all add: acceptRequest_def)
  obtain trip s1 where ins: "accept_insert request driverId vehicleId now s = (trip, s1)"
    by (cases "accept_insert request driverId vehicleId now s")
  from ins have s1: "driver_profiles s1 = driver_profiles s"
    using accept_insert_drivers [of request driverId vehicleId now s] by simp
  from assms sel ins have trip: "trip = Some t"
    by (simp add: acceptRequest_def Let_def split: option.splits)
  from assms sel ins show "driver_profiles (snd (acceptRequest requestId driverId vehicleId now s))
           = map (\<lambda>d. if dp_id d = driverId then d\<lparr>dp_is_available := False\<rparr> else d)
               (driver_profiles s)"
    by (simp add: acceptRequest_def Let_def accept_notify_drivers accept_update_def
        accept_delete_def s1 split: option.splits)
  from ins trip have "fst (accept_insert request driverId vehicleId now s) = Some t" by simp
  then show "t_driver_id t = Some driverId" and "t_status t = Accepted"
    by (simp_all add: accept_insert_trip)
qed

lemma completeTrip_Returned:
  assumes "fst (completeTrip tripId ad af now s) = Returned ()"
  obtains trip where
    "filter (\<lambda>t. t_id t = tripId) (trips (snd (completeTrip tripId ad af now s))) = [trip]"
    and "driver_profiles (snd (completeTrip tripId ad af now s))
         = map (\<lambda>d. if Some (dp_id d) = t_driver_id trip then d\<lparr>dp_is_available := True\<rparr> else d)
             (driver_profiles (increment_driver_trips (t_driver_id trip) s))"
proof -
  let ?s1 = "s\<lparr>trips :=
                  map (\<lambda>t. if t_id t = tripId
                           then t\<lparr>t_status := Completed,
                                  t_completed_at := Some now,
                                  t_actual_distance_km := Some ad,
                                  t_actual_fare := Some af\<rparr>
                           else t)
                    (trips s)\<rparr>"
  from assms obtain trip where sel: "single (filter (\<lambda>t. t_id t = tripId) (trips ?s1)) = Some trip"
    by (cases "single (filter (\<lambda>t. t_id t = tripId) (trips ?s1))")
       (simp_all add: completeTrip_def Let_def)
  then have one: "filter (\<lambda>t. t_id t = tripId) (trips ?s1) = [trip]"
    by (rule single_Some_filter)
  have t: "trips (snd (completeTrip tripId ad af now s)) = trips ?s1"
    by (simp add: completeTrip_trips)
  have "driver_profiles (snd (completeTrip tripId ad af now s))
         = map (\<lambda>d. if Some (dp_id d) = t_driver_id trip then d\<lparr>dp_is_available := True\<rparr> else d)
             (driver_profiles (increment_driver_trips (t_driver_id trip) s))"
    using sel by (simp add: completeTrip_def Let_def increment_rider_trips_def
        increment_driver_trips_def)
  with one t that show thesis by simp
qed

text \<open>
  What the two functions write: when \<open>acceptRequest\<close> returns a trip, the trip
  is accepted, its driver is the caller, and right after the call every row of
  that driver has \<open>is_available = false\<close>; when \<open>completeTrip\<close> returns, the trip
  is completed and right after the call every row of the trip's driver has
  \<open>is_available = true\<close>. The sources have no operation that cancels a trip.
\<close>

lemma availability_after_accept_and_complete:
  "(fst (acceptRequest requestId driverId vehicleId now s) = Returned trip \<longrightarrow>
      t_driver_id trip = Some driverId \<and> t_status trip = Accepted
      \<and> (\<forall>d \<in> set (driver_profiles (snd (acceptRequest requestId driverId vehicleId now s))).
           dp_id d = driverId \<longrightarrow> \<not> dp_is_available d))
   \<and> (fst (completeTrip tripId actualDistance actualFare now s) = Returned () \<longrightarrow>
      (\<forall>t \<in> set (trips (snd (completeTrip tripId actualDistance actualFare now s))).
         t_id t = tripId \<longrightarrow>
           t_status t = Completed
           \<and> (\<forall>d \<in> set (driver_profiles
                          (snd (completeTrip tripId actualDistance actualFare now s))).
                Some (dp_id d) = t_driver_id t \<longrightarrow> dp_is_available d)))"
proof (intro conjI impI ballI)
  assume r: "fst (acceptRequest requestId driverId vehicleId now s) = Returned trip"
  then show "t_driver_id trip = Some driverId" and "t_status trip = Accepted"
    by (rule acceptRequest_Returned)+
  fix d
  assume "d \<in> set (driver_profiles (snd (acceptRequest requestId driverId vehicleId now s)))"
    and "dp_id d = driverId"
  then show "\<not> dp_is_available d"
    unfolding acceptRequest_Returned(1) [OF r] by (elim in_set_map_if) simp_all
next
  fix t
  assume "t \<in> set (trips (snd (completeTrip tripId actualDistance actualFare now s)))"
    and "t_id t = tripId"
  then show "t_status t = Completed"
    unfolding completeTrip_trips by (elim in_set_map_if) simp_all
next
  fix t d
  assume r: "fst (completeTrip tripId actualDistance actualFare now s) = Returned ()"
    and t: "t \<in> set (trips (snd (completeTrip tripId actualDistance actualFare now s)))"
           "t_id t = tripId"
    and d: "d \<in> set (driver_profiles (snd (completeTrip tripId actualDistance actualFare now s)))"
           "Some (dp_id d) = t_driver_id t"
  from r obtain trip where
    one: "filter (\<lambda>t. t_id t = tripId)
            (trips (snd (completeTrip tripId actualDistance actualFare now s))) = [trip]"
    and drivers: "driver_profiles (snd (completeTrip tripId actualDistance actualFare now s))
         = map (\<lambda>d. if Some (dp_id d) = t_driver_id trip then d\<lparr>dp_is_available := True\<rparr> else d)
             (driver_profiles (increment_driver_trips (t_driver_id trip) s))"
    by (rule completeTrip_Returned)
  from t have "t \<in> set (filter (\<lambda>t. t_id t = tripId)
            (trips (snd (completeTrip tripId actualDistance actualFare now s))))"
    by simp
  with one have "t = trip" by simp
  with d show "dp_is_available d"
    unfolding drivers by (elim in_set_map_if) simp_all
qed

lemma availability_after_accept_and_complete_example:
  "fst (completeTrip 100 (5 / 2) 800 3000 (snd (acceptRequest 41 21 31 1000 test_store)))
     = Returned ()
   \<and> map (\<lambda>t. (t_id t, t_driver_id t, t_status t))
       (trips (snd (acceptRequest 41 21 31 1000 test_store)))
     = [(100, Some 21, Accepted)]
   \<and> map (\<lambda>d. (dp_id d, dp_is_available d))
       (driver_profiles (snd (acceptRequest 41 21 31 1000 test_store)))
     = [(21, False), (22, True), (23, True)]
   \<and> map (\<lambda>t. (t_id t, t_driver_id t, t_status t))
       (trips (snd (completeTrip 100 (5 / 2) 800 3000
                      (snd (acceptRequest 41 21 31 1000 test_store)))))
     = [(100, Some 21, Completed)]
   \<and> map (\<lambda>d. (dp_id d, dp_is_available d))
       (driver_profiles (snd (completeTrip 100 (5 / 2) 800 3000
                                (snd (acceptRequest 41 21 31 1000 test_store)))))
     = [(21, True), (22, True), (23, True)]"
proof -
  have run: "fst (completeTrip 100 (5 / 2) 800 3000 (snd (acceptRequest 41 21 31 1000 test_store)))
     = Returned ()
   \<and> map (\<lambda>t. (t_id t, t_driver_id t, t_status t))
       (trips (snd (acceptRequest 41 21 31 1000 test_store)))
     = [(100, Some 21, Accepted)]
   \<and> map (\<lambda>d. (dp_id d, dp_is_available d))
       (driver_profiles (snd (acceptRequest 41 21 31 1000 test_store)))
     = [(21, False), (22, True), (23, True)]
   \<and> map (\<lambda>t. (t_id t, t_driver_id t, t_status t))
       (trips (snd (completeTrip 100 (5 / 2) 800 3000
                      (snd (acceptRequest 41 21 31 1000 test_store)))))
     = [(100, Some 21, Completed)]
   \<and> map (\<lambda>d. (dp_id d, dp_is_available d))
       (driver_profiles (snd (completeTrip 100 (5 / 2) 800 3000
                                (snd (acceptRequest 41 21 31 1000 test_store)))))
     = [(21, True), (22, True), (23, True)]"
    by (simp add: accept_defs completeTrip_def increment_rider_trips_def
        increment_driver_trips_def test_data)
  from availability_after_accept_and_complete
          [where requestId = 41 and driverId = 21 and vehicleId = 31 and now = 1000
             and s = test_store]
       availability_after_accept_and_complete
          [where tripId = 100 and actualDistance = "5 / 2" and actualFare = 800
             and now = 3000 and s = "snd (acceptRequest 41 21 31 1000 test_store)"]
  show ?thesis
    by - (rule run)
qed

text \<open>
  C9: at every reachable state, a driver who is the driver of a trip in the
  state accepted or picked_up is to have \<open>is_available = false\<close>; the schema
  says the same of the column, 'Not on active trip'. \<open>acceptRequest\<close> does not
  look at the driver. Mike Driver accepts the two requests of the test data,
  one after the other, and completes the first trip. He is then available,
  and his second trip is still in the state accepted.
\<close>

theorem available_with_an_accepted_trip:
  "map (\<lambda>t. (t_id t, t_driver_id t, t_status t))
     (trips (snd (completeTrip 100 (5 / 2) 800 3000
        (snd (acceptRequest 42 21 31 2000
           (snd (acceptRequest 41 21 31 1000 test_store)))))))
     = [(100, Some 21, Completed), (102, Some 21, Accepted)]
   \<and> map (\<lambda>d. (dp_id d, dp_is_available d))
     (driver_profiles (snd (completeTrip 100 (5 / 2) 800 3000
        (snd (acceptRequest 42 21 31 2000
           (snd (acceptRequest 41 21 31 1000 test_store)))))))
     = [(21, True), (22, True), (23, True)]"
  by (simp add: accept_defs completeTrip_def increment_rider_trips_def
      increment_driver_trips_def test_data)

section \<open>Two drivers accept one request\<close>

text \<open>
  A call that runs alone, statement after statement, is the function
  \<open>acceptRequest\<close>.
\<close>

lemma interleave_one_call:
  "interleave [0, 0, 0, 0, 0, 0] [new_call requestId driverId vehicleId now] s
   = ([(new_call requestId driverId vehicleId now)
         \<lparr>ac_pc := Finished (fst (acceptRequest requestId driverId vehicleId now s))\<rparr>],
      snd (acceptRequest requestId driverId vehicleId now s))"
proof (cases "accept_select requestId s")
  case None
  then show ?thesis
    by (simp add: new_call_def acceptRequest_def)
next
  case (Some request)
  obtain trip s1 where ins: "accept_insert request driverId vehicleId now s = (trip, s1)"
    by (cases "accept_insert request driverId vehicleId now s")
  show ?thesis
  proof (cases "accept_rider request (accept_update driverId (accept_delete requestId s1))")
    case None
    with Some ins show ?thesis
      by (simp add: new_call_def acceptRequest_def)
  next
    case rider: (Some rp)
    with Some ins show ?thesis
      by (cases trip) (simp_all add: new_call_def acceptRequest_def)
  qed
qed

lemma accept_insert_requests:
  "trip_requests (snd (accept_insert request driverId vehicleId now s)) = trip_requests s"
  by (simp add: accept_insert_def Let_def)

lemma accept_notify_requests:
  "trip_requests (accept_notify rp t s) = trip_requests s"
  by (simp add: accept_notify_def Let_def)

lemma acceptRequest_deletes:
  assumes "accept_select requestId s = Some request"
  shows "trip_requests (snd (acceptRequest requestId driverId vehicleId now s))
         = filter (\<lambda>r. tr_id r \<noteq> requestId) (trip_requests s)"
proof -
  obtain trip s1 where ins: "accept_insert request driverId vehicleId now s = (trip, s1)"
    by (cases "accept_insert request driverId vehicleId now s")
  then have s1: "trip_requests s1 = trip_requests s"
    using accept_insert_requests [of request driverId vehicleId now s] by simp
  from assms ins show ?thesis
    by (simp add: acceptRequest_def Let_def accept_notify_requests accept_update_def
        accept_delete_def s1 split: option.split)
qed

text \<open>
  When the calls run one after the other, the second call on the same request
  finds no request and throws.
\<close>

lemma acceptRequest_in_sequence:
  assumes "fst (acceptRequest requestId driverId vehicleId now s) = Returned t"
  shows "acceptRequest requestId driverId' vehicleId' now'
           (snd (acceptRequest requestId driverId vehicleId now s))
         = (Thrown Request_no_longer_available,
            snd (acceptRequest requestId driverId vehicleId now s))"
proof -
  from assms obtain request where "accept_select requestId s = Some request"
    by (cases "accept_select requestId s") (simp_all add: acceptRequest_def)
  then have "trip_requests (snd (acceptRequest requestId driverId vehicleId now s))
         = filter (\<lambda>r. tr_id r \<noteq> requestId) (trip_requests s)"
    by (rule acceptRequest_deletes)
  then have "accept_select requestId (snd (acceptRequest requestId driverId vehicleId now s)) = None"
    by (simp add: accept_select_def filter_empty_conv)
  then show ?thesis
    by (simp add: acceptRequest_def)
qed

text \<open>
  C1: of the calls of \<open>acceptRequest\<close> that race on one request, exactly one is
  to return a trip. Mike Driver and Dave Driver both call it on request 41 of
  the test data, and both calls read the request before either deletes it:
  the schedule runs the first statement of each call, then the rest of the
  first call, then the rest of the second. Both calls return a trip, and the
  table holds two accepted trips for the one request.
\<close>

theorem acceptRequest_interleaved_twice:
  "map (\<lambda>c. case ac_pc c of
               Finished (Returned t) \<Rightarrow> Some (t_id t, t_driver_id t, t_status t)
             | _ \<Rightarrow> None)
     (fst (interleave [0, 1, 0, 0, 0, 0, 0, 1, 1, 1, 1, 1]
             [new_call 41 21 31 1000, new_call 41 22 32 1001] test_store))
     = [Some (100, Some 21, Accepted), Some (102, Some 22, Accepted)]
   \<and> map (\<lambda>t. (t_id t, t_driver_id t, t_status t))
       (trips (snd (interleave [0, 1, 0, 0, 0, 0, 0, 1, 1, 1, 1, 1]
             [new_call 41 21 31 1000, new_call 41 22 32 1001] test_store)))
     = [(100, Some 21, Accepted), (102, Some 22, Accepted)]"
  by (simp add: new_call_def accept_defs test_data)

end
